theory Spec2Isabelle
  imports Complex_Main
begin

section \<open>Tensors and the library operations used by \<open>pdf.py\<close>\<close>

text \<open>
  The module evaluates a closed formula on torch tensors. The embedding works in exact
  real arithmetic: a tensor entry is a \<^typ>\<open>real\<close>, a one-dimensional tensor is a list
  of its entries, and a two-dimensional tensor carries its shape explicitly, so that the
  shapes \<open>(0, n)\<close> and \<open>(n, 0)\<close> exist as they do in torch. Rounding, overflow and the
  IEEE values \<open>inf\<close> and \<open>nan\<close> are outside this model: where the floating-point code
  yields them (a division by zero, a logarithm of a non-positive number), the terms below
  have the value HOL gives to the total functions \<open>/\<close>, \<open>sqrt\<close> and \<open>ln\<close>.
\<close>

type_synonym tensor1 = "real list"

record tensor2 =
  dim0 :: nat
  dim1 :: nat
  elem :: "nat \<Rightarrow> nat \<Rightarrow> real"

text \<open>A two-dimensional tensor written as in Python, as the list of its rows.\<close>

definition tensor :: "real list list \<Rightarrow> tensor2" where
  "tensor rows =
     \<lparr>dim0 = length rows,
      dim1 = (case rows of [] \<Rightarrow> 0 | r # _ \<Rightarrow> length r),
      elem = (\<lambda>i j. rows ! i ! j)\<rparr>"

text \<open>\<open>y.t()\<close>: the transpose of a two-dimensional tensor.\<close>

definition tensor_t :: "tensor2 \<Rightarrow> tensor2" where
  "tensor_t a = \<lparr>dim0 = dim1 a, dim1 = dim0 a, elem = (\<lambda>i j. elem a j i)\<rparr>"

text \<open>
  The two exceptions of the module, both raised inside torch and never caught:
  \<open>torch.linalg.LinAlgError\<close> for a singular matrix, and the \<open>RuntimeError\<close> of an
  operation whose operands do not fit in shape.
\<close>

datatype error = SingularMatrixError | DimensionMismatchError

subsection \<open>Determinant, inverse and log-determinant\<close>

text \<open>
  \<open>torch.linalg.inv\<close> and \<open>torch.logdet\<close> are taken at their mathematical meaning: the
  determinant by expansion along the first row, the inverse as the transposed matrix of
  cofactors divided by the determinant. \<open>torch.linalg.inv\<close> refuses a matrix that is not
  square and raises \<open>LinAlgError\<close> for a square matrix that has no inverse.
\<close>

definition skip :: "nat \<Rightarrow> nat \<Rightarrow> nat" where
  "skip i r = (if r < i then r else Suc r)"

definition minor :: "(nat \<Rightarrow> nat \<Rightarrow> real) \<Rightarrow> nat \<Rightarrow> nat \<Rightarrow> nat \<Rightarrow> nat \<Rightarrow> real" where
  "minor a i j = (\<lambda>r c. a (skip i r) (skip j c))"

fun det :: "nat \<Rightarrow> (nat \<Rightarrow> nat \<Rightarrow> real) \<Rightarrow> real" where
  "det 0 a = 1"
| "det (Suc n) a = (\<Sum>j<Suc n. (- 1) ^ j * a 0 j * det n (minor a 0 j))"

definition cofactor :: "nat \<Rightarrow> (nat \<Rightarrow> nat \<Rightarrow> real) \<Rightarrow> nat \<Rightarrow> nat \<Rightarrow> real" where
  "cofactor n a i j = (- 1) ^ (i + j) * det (n - 1) (minor a i j)"

definition linalg_inv :: "tensor2 \<Rightarrow> error + tensor2" where
  "linalg_inv A =
     (if dim0 A \<noteq> dim1 A then Inl DimensionMismatchError
      else if det (dim0 A) (elem A) = 0 then Inl SingularMatrixError
      else Inr \<lparr>dim0 = dim0 A, dim1 = dim1 A,
                elem = (\<lambda>i j. cofactor (dim0 A) (elem A) j i / det (dim0 A) (elem A))\<rparr>)"

definition logdet :: "tensor2 \<Rightarrow> real" where
  "logdet A = ln (det (dim0 A) (elem A))"

subsection \<open>The three \<open>einsum\<close> contractions\<close>

text \<open>
  \<open>torch.einsum\<close> lets the sizes that share a subscript differ when one of them is 1:
  that operand is then read at index 0 along the subscript (broadcasting). Any other
  difference of sizes raises \<open>RuntimeError\<close>.
\<close>

definition bcast :: "nat \<Rightarrow> nat \<Rightarrow> error + nat" where
  "bcast a b =
     (if a = b \<or> b = 1 then Inr a else if a = 1 then Inr b else Inl DimensionMismatchError)"

definition vat :: "tensor1 \<Rightarrow> nat \<Rightarrow> real" where
  "vat v i = v ! (if length v = 1 then 0 else i)"

definition mat :: "tensor2 \<Rightarrow> nat \<Rightarrow> nat \<Rightarrow> real" where
  "mat A i j = elem A (if dim0 A = 1 then 0 else i) (if dim1 A = 1 then 0 else j)"

text \<open>\<open>einsum("i,ij,j->", a, P, b)\<close>: a number.\<close>

definition einsum_i_ij_j :: "tensor1 \<Rightarrow> tensor2 \<Rightarrow> tensor1 \<Rightarrow> error + real" where
  "einsum_i_ij_j a P b =
     (case bcast (length a) (dim0 P) of Inl e \<Rightarrow> Inl e | Inr I \<Rightarrow>
       (case bcast (dim1 P) (length b) of Inl e \<Rightarrow> Inl e | Inr J \<Rightarrow>
          Inr (\<Sum>i<I. \<Sum>j<J. vat a i * mat P i j * vat b j)))"

text \<open>
  \<open>einsum("i,ij,j...->...", a, P, B)\<close>: the ellipsis stands for the second dimension of
  \<open>B\<close>, which is the dimension of the result.
\<close>

definition einsum_i_ij_jE :: "tensor1 \<Rightarrow> tensor2 \<Rightarrow> tensor2 \<Rightarrow> error + tensor1" where
  "einsum_i_ij_jE a P B =
     (case bcast (length a) (dim0 P) of Inl e \<Rightarrow> Inl e | Inr I \<Rightarrow>
       (case bcast (dim1 P) (dim0 B) of Inl e \<Rightarrow> Inl e | Inr J \<Rightarrow>
          Inr (map (\<lambda>k. \<Sum>i<I. \<Sum>j<J. vat a i * mat P i j * mat B j k) [0..<dim1 B])))"

text \<open>
  \<open>einsum("...i,ij,j...->...", A, P, B)\<close>: the ellipsis stands for the first dimension
  of \<open>A\<close> and the second of \<open>B\<close>, and the result keeps it: entry \<open>k\<close> pairs row \<open>k\<close> of \<open>A\<close>
  with column \<open>k\<close> of \<open>B\<close>.
\<close>

definition einsum_Ei_ij_jE :: "tensor2 \<Rightarrow> tensor2 \<Rightarrow> tensor2 \<Rightarrow> error + tensor1" where
  "einsum_Ei_ij_jE A P B =
     (case bcast (dim0 A) (dim1 B) of Inl e \<Rightarrow> Inl e | Inr K \<Rightarrow>
       (case bcast (dim1 A) (dim0 P) of Inl e \<Rightarrow> Inl e | Inr I \<Rightarrow>
         (case bcast (dim1 P) (dim0 B) of Inl e \<Rightarrow> Inl e | Inr J \<Rightarrow>
            Inr (map (\<lambda>k. \<Sum>i<I. \<Sum>j<J. mat A k i * mat P i j * mat B j k) [0..<K]))))"

subsection \<open>The standard normal distribution\<close>

text \<open>
  \<open>torch.distributions.Normal(loc, scale).cdf(value)\<close> is
  \<open>0.5 * (1 + erf((value - loc) * scale.reciprocal() / sqrt(2)))\<close>. The error function
  is given by its Maclaurin series.
\<close>

definition erf_term :: "real \<Rightarrow> nat \<Rightarrow> real" where
  "erf_term x k = (- 1) ^ k * x ^ (2 * k + 1) / (fact k * real (2 * k + 1))"

definition erf :: "real \<Rightarrow> real" where
  "erf x = 2 / sqrt pi * (\<Sum>k. erf_term x k)"

definition Normal_cdf :: "real \<Rightarrow> real \<Rightarrow> real \<Rightarrow> real" where
  "Normal_cdf loc scale val = 0.5 * (1 + erf ((val - loc) * (1 / scale) / sqrt 2))"

section \<open>The auxiliary function \<open>_M_value\<close>\<close>

text \<open>
  One pass of the loop body \<open>for i in range(3, n_dim + 1)\<close> on the two-element list
  \<open>M_vals\<close>, kept as a pair; every operation acts entry by entry on tensors of the shape
  of \<open>alpha\<close>.
\<close>

definition M_step :: "tensor1 \<Rightarrow> nat \<Rightarrow> tensor1 \<times> tensor1 \<Rightarrow> tensor1 \<times> tensor1" where
  "M_step alpha i M_vals =
     (let M_next = map2 (+) (map ((*) (real (i - 2))) (fst M_vals)) (map2 (*) alpha (snd M_vals))
      in (snd M_vals, M_next))"

definition M_value :: "tensor1 \<Rightarrow> nat \<Rightarrow> tensor1" where
  "M_value alpha n_dim =
     (let norm_cdf = map (Normal_cdf 0 1) alpha;
          exp_alpha = map (\<lambda>a. exp (- 0.5 * a\<^sup>2)) alpha;
          M1 = map ((*) (sqrt (2 * pi))) norm_cdf;
          M2 = map2 (+) exp_alpha (map2 (*) alpha M1)
      in snd (fold (M_step alpha) [3..<n_dim + 1] (M1, M2)))"

text \<open>
  The function \<open>M\<close> as section 4.2 of the specification defines it, for one entry
  \<open>alpha\<close>: \<open>M(1) = sqrt(2 pi) Phi(alpha)\<close>, \<open>M(2) = exp(-alpha^2/2) + alpha M(1)\<close> and
  \<open>M(i) = (i-2) M(i-2) + alpha M(i-1)\<close> from \<open>i = 3\<close> on. The specification takes
  \<open>n \<ge> 1\<close>; index \<open>0\<close> is given the value \<open>0\<close> here and is never used.
\<close>

fun RecursiveM :: "real \<Rightarrow> nat \<Rightarrow> real" where
  "RecursiveM alpha 0 = 0"
| "RecursiveM alpha (Suc 0) = sqrt (2 * pi) * Normal_cdf 0 1 alpha"
| "RecursiveM alpha (Suc (Suc 0)) =
     exp (- (alpha\<^sup>2) / 2) + alpha * RecursiveM alpha (Suc 0)"
| "RecursiveM alpha (Suc (Suc (Suc n))) =
     real (Suc n) * RecursiveM alpha (Suc n) + alpha * RecursiveM alpha (Suc (Suc n))"

section \<open>The functions \<open>log_pdf\<close> and \<open>pdf\<close>\<close>

text \<open>
  \<open>log_pdf\<close> statement by statement. \<open>n_dim\<close> is \<open>mu.size(0)\<close>. The inversion comes
  first and the three contractions follow in the order of the source, so the first
  exception raised is the one the caller sees. A number combined with a tensor acts on
  every entry; two tensors of the shape of \<open>q3\<close> are combined entry by entry.
\<close>

definition log_pdf :: "tensor1 \<Rightarrow> tensor2 \<Rightarrow> tensor2 \<Rightarrow> error + tensor1" where
  "log_pdf mu covariance y =
     (let n_dim = length mu in
      (case linalg_inv covariance of Inl e \<Rightarrow> Inl e | Inr precision \<Rightarrow>
      (case einsum_i_ij_j mu precision mu of Inl e \<Rightarrow> Inl e | Inr q1 \<Rightarrow>
      (case einsum_i_ij_jE mu precision (tensor_t y) of Inl e \<Rightarrow> Inl e | Inr q2 \<Rightarrow>
      (case einsum_Ei_ij_jE y precision (tensor_t y) of Inl e \<Rightarrow> Inl e | Inr q3 \<Rightarrow>
        (let alpha = map2 (/) q2 (map sqrt q3);
             M = M_value alpha n_dim;
             term1 = - (real n_dim / 2) * ln (2 * pi);
             term2 = - 0.5 * logdet covariance;
             term3 = map ((*) (- (real n_dim / 2))) (map ln q3);
             term4 = map ((*) 0.5) (map (\<lambda>a. a\<^sup>2 - q1) alpha);
             term5 = map ln M;
             lpdf = map2 (+) (map2 (+) (map ((+) (term1 + term2)) term3) term4) term5
         in Inr lpdf))))))"

definition pdf :: "tensor1 \<Rightarrow> tensor2 \<Rightarrow> tensor2 \<Rightarrow> error + tensor1" where
  "pdf mu covariance y =
     (case log_pdf mu covariance y of Inl e \<Rightarrow> Inl e | Inr lpdf \<Rightarrow> Inr (map exp lpdf))"

section \<open>Properties of \<open>_M_value\<close>\<close>

text \<open>
  The series of the error function converges for every argument; it vanishes at 0, so
  the distribution function is 1/2 there.
\<close>

lemma summable_erf_term: "summable (erf_term x)"
proof (rule summable_comparison_test')
  show "summable (\<lambda>k. \<bar>x\<bar> * (inverse (fact k) * (x\<^sup>2) ^ k))"
    by (rule summable_mult) (rule summable_exp)
  show "norm (erf_term x k) \<le> \<bar>x\<bar> * (inverse (fact k) * (x\<^sup>2) ^ k)" for k
  proof -
    have "norm (erf_term x k) = \<bar>x\<bar> * (x\<^sup>2) ^ k / (fact k * real (2 * k + 1))"
      by (simp add: erf_term_def abs_mult power_abs power_mult power_add abs_divide)
    also have "\<dots> \<le> \<bar>x\<bar> * (x\<^sup>2) ^ k / (fact k * 1)"
      by (intro divide_left_mono mult_left_mono) simp_all
    finally show ?thesis
      by (simp add: divide_inverse mult_ac)
  qed
qed

lemma erf_zero: "erf 0 = 0"
  by (simp add: erf_def erf_term_def)

lemma Normal_cdf_zero: "Normal_cdf 0 1 0 = 1 / 2"
  by (simp add: Normal_cdf_def erf_zero)

text \<open>Without a pass of the loop the result is the second accumulator.\<close>

lemma M_value_no_loop:
  "n_dim \<le> 2 \<Longrightarrow>
   M_value alpha n_dim =
     map (\<lambda>a. exp (- (a\<^sup>2) / 2) + a * (sqrt (2 * pi) * Normal_cdf 0 1 a)) alpha"
  by (simp add: M_value_def zip_map2 zip_map1 zip_same_conv_map o_def)

text \<open>
  From \<open>n_dim = 2\<close> on, the loop computes the function \<open>M\<close> of the specification at
  every entry: after the pass for \<open>i\<close> the pair holds \<open>M(i-1)\<close> and \<open>M(i)\<close>.
\<close>

lemma M_fold_RecursiveM:
  "fold (M_step alpha) [3..<Suc (Suc (Suc m))]
     (map (\<lambda>a. RecursiveM a 1) alpha, map (\<lambda>a. RecursiveM a 2) alpha)
   = (map (\<lambda>a. RecursiveM a (Suc m)) alpha, map (\<lambda>a. RecursiveM a (Suc (Suc m))) alpha)"
proof (induction m)
  case 0
  show ?case by (simp add: numeral_2_eq_2)
next
  case (Suc m)
  have "[3..<Suc (Suc (Suc (Suc m)))] = [3..<Suc (Suc (Suc m))] @ [Suc (Suc (Suc m))]"
    by (simp add: numeral_3_eq_3)
  then show ?case
    using Suc.IH
    by (simp add: M_step_def zip_map2 zip_map1 zip_same_conv_map o_def)
qed

lemma M_value_eq_RecursiveM:
  assumes "2 \<le> n"
  shows "M_value alpha n = map (\<lambda>a. RecursiveM a n) alpha"
proof -
  define m where "m = n - 2"
  have n: "n = Suc (Suc m)"
    using assms by (simp add: m_def)
  have M1: "map ((*) (sqrt (2 * pi))) (map (Normal_cdf 0 1) alpha)
            = map (\<lambda>a. RecursiveM a 1) alpha"
    by simp
  have M2: "map2 (+) (map (\<lambda>a. exp (- 0.5 * a\<^sup>2)) alpha)
              (map2 (*) alpha (map (\<lambda>a. RecursiveM a 1) alpha))
            = map (\<lambda>a. RecursiveM a 2) alpha"
    by (simp add: zip_map2 zip_map1 zip_same_conv_map o_def numeral_2_eq_2)
  show ?thesis
    unfolding M_value_def Let_def M1 M2 n
    using M_fold_RecursiveM [of alpha m] by simp
qed

text \<open>The second base case of the specification holds: \<open>_M_value(alpha, 2) = M(2)\<close>.\<close>

lemma M_value_two:
  "M_value alpha 2 =
     map (\<lambda>a. exp (- (a\<^sup>2) / 2) + a * sqrt (2 * pi) * Normal_cdf 0 1 a) alpha"
  by (simp add: M_value_no_loop algebra_simps)

text \<open>
  The recurrence between calls of \<open>_M_value\<close> holds from \<open>n = 4\<close> on, where neither call
  on the right has \<open>n_dim = 1\<close>.
\<close>

lemma M_value_recurrence:
  assumes "4 \<le> n"
  shows "M_value alpha n =
     map2 (+) (map ((*) (real (n - 2))) (M_value alpha (n - 2)))
       (map2 (*) alpha (M_value alpha (n - 1)))"
proof -
  define m where "m = n - 4"
  have n: "n = Suc (Suc (Suc (Suc m)))"
    using assms by (simp add: m_def)
  have "M_value alpha (n - 2) = map (\<lambda>a. RecursiveM a (n - 2)) alpha"
       "M_value alpha (n - 1) = map (\<lambda>a. RecursiveM a (n - 1)) alpha"
       "M_value alpha n = map (\<lambda>a. RecursiveM a n) alpha"
    using assms by (simp_all add: M_value_eq_RecursiveM)
  then show ?thesis
    by (simp add: n zip_map2 zip_map1 zip_same_conv_map o_def)
qed

text \<open>
  On a tensor the function acts entry by entry: entry \<open>k\<close> of the result is the result
  for the one-entry tensor that holds entry \<open>k\<close> of \<open>alpha\<close>.
\<close>

lemma M_value_entrywise:
  "M_value alpha n = map (\<lambda>a. hd (M_value [a] n)) alpha"
proof (cases "2 \<le> n")
  case True
  then show ?thesis by (simp add: M_value_eq_RecursiveM)
next
  case False
  then have "n \<le> 2" by simp
  then show ?thesis by (simp add: M_value_no_loop)
qed

text \<open>
  C1. The claim gives \<open>_M_value(alpha, 1) = sqrt(2 pi) Phi(alpha)\<close> and
  \<open>_M_value(alpha, 2) = exp(-alpha^2/2) + alpha sqrt(2 pi) Phi(alpha)\<close>. The second
  equation holds (\<open>M_value_two\<close>). The first does not: with \<open>n_dim = 1\<close> the code returns
  \<open>M_vals[1]\<close>, which is \<open>M2\<close>. At \<open>alpha = 1\<close> the returned value is
  \<open>exp(-1/2) + sqrt(2 pi) Phi(1)\<close>, which exceeds \<open>sqrt(2 pi) Phi(1)\<close> by \<open>exp(-1/2)\<close>.
\<close>

theorem M_value_one_returns_M2:
  "M_value [1] 1 = [exp (- 1 / 2) + sqrt (2 * pi) * Normal_cdf 0 1 1]
   \<and> M_value [1] 1 \<noteq> [sqrt (2 * pi) * Normal_cdf 0 1 1]"
  by (simp add: M_value_def)

text \<open>
  C2. The claim states \<open>_M_value(alpha, n) = (n-2) _M_value(alpha, n-2) + alpha
  _M_value(alpha, n-1)\<close> for every \<open>n \<ge> 3\<close>. At \<open>n = 3\<close> the right-hand side calls
  \<open>_M_value(alpha, 1)\<close>, which returns \<open>M2\<close> in place of \<open>M1\<close>: at \<open>alpha = 1\<close> the code
  returns \<open>M1 + M2\<close> for \<open>n = 3\<close>, and the right-hand side is \<open>M2 + M2\<close>, larger by
  \<open>exp(-1/2)\<close>.
\<close>

theorem M_value_three_breaks_recurrence:
  "M_value [1] 3 = [exp (- 1 / 2) + 2 * (sqrt (2 * pi) * Normal_cdf 0 1 1)]
   \<and> map2 (+) (map ((*) (real (3 - 2))) (M_value [1] (3 - 2)))
         (map2 (*) [1] (M_value [1] (3 - 1)))
       = [2 * exp (- 1 / 2) + 2 * (sqrt (2 * pi) * Normal_cdf 0 1 1)]
   \<and> M_value [1] 3 \<noteq>
       map2 (+) (map ((*) (real (3 - 2))) (M_value [1] (3 - 2)))
         (map2 (*) [1] (M_value [1] (3 - 1)))"
  by (simp add: M_value_def M_step_def)

text \<open>
  C9. With \<open>n_dim = 1\<close> the loop \<open>range(3, n_dim + 1)\<close> is empty exactly as with
  \<open>n_dim = 2\<close>, and the function returns \<open>M_vals[1]\<close>, the second accumulator
  \<open>M2 = exp(-alpha^2/2) + alpha * sqrt(2 pi) * Phi(alpha)\<close>, in both cases.
\<close>

theorem M_value_one_eq_two:
  "M_value alpha 1 = M_value alpha 2
   \<and> M_value alpha 1 =
       map (\<lambda>a. exp (- (a\<^sup>2) / 2) + a * sqrt (2 * pi) * Normal_cdf 0 1 a) alpha"
  by (simp add: M_value_def zip_map2 zip_map1 zip_same_conv_map o_def algebra_simps)

section \<open>Properties of the library operations\<close>

lemma bcast_same: "bcast n n = Inr n"
  by (simp add: bcast_def)

lemma bcast_Inl: "bcast a b = Inl e \<Longrightarrow> e = DimensionMismatchError"
  by (auto simp: bcast_def split: if_splits)

lemma bcast_mismatch:
  "a \<noteq> b \<Longrightarrow> a \<noteq> 1 \<Longrightarrow> b \<noteq> 1 \<Longrightarrow> bcast a b = Inl DimensionMismatchError"
  by (simp add: bcast_def)






text \<open>A contraction raises nothing but the shape error, and raises it on sizes that differ
  with neither of them 1.\<close>

lemma einsum_i_ij_j_Inl: "einsum_i_ij_j a P b = Inl e \<Longrightarrow> e = DimensionMismatchError"
  by (auto simp: einsum_i_ij_j_def split: sum.splits dest: bcast_Inl)

lemma einsum_i_ij_j_mismatch:
  "length a \<noteq> dim0 P \<Longrightarrow> length a \<noteq> 1 \<Longrightarrow> dim0 P \<noteq> 1 \<Longrightarrow>
   einsum_i_ij_j a P b = Inl DimensionMismatchError"
  by (simp add: einsum_i_ij_j_def bcast_mismatch)

lemma einsum_i_ij_jE_mismatch:
  "dim1 P \<noteq> dim0 B \<Longrightarrow> dim1 P \<noteq> 1 \<Longrightarrow> dim0 B \<noteq> 1 \<Longrightarrow>
   einsum_i_ij_jE a P B = Inl DimensionMismatchError"
  by (auto simp: einsum_i_ij_jE_def bcast_mismatch split: sum.splits dest: bcast_Inl)

lemma linalg_inv_Inr:
  assumes "linalg_inv A = Inr P"
  shows "dim0 P = dim0 A \<and> dim1 P = dim0 A \<and> dim1 A = dim0 A
         \<and> det (dim0 A) (elem A) \<noteq> 0
         \<and> elem P = (\<lambda>i j. cofactor (dim0 A) (elem A) j i / det (dim0 A) (elem A))"
  using assms by (auto simp: linalg_inv_def split: if_splits)

lemma linalg_inv_invertible:
  assumes "dim0 A = n" "dim1 A = n" "det n (elem A) \<noteq> 0"
  shows "linalg_inv A =
     Inr \<lparr>dim0 = n, dim1 = n, elem = (\<lambda>i j. cofactor n (elem A) j i / det n (elem A))\<rparr>"
  using assms by (simp add: linalg_inv_def)

text \<open>
  The determinant of the sizes 1, 2 and 3 written out, and a check of the inverse: for
  the sizes 2 and 3 the product of a matrix with the result of \<open>linalg_inv\<close> is the
  identity.
\<close>

lemma det_1: "det (Suc 0) a = a 0 0"
  by simp

lemma det_2: "det (Suc (Suc 0)) a = a 0 0 * a (Suc 0) (Suc 0) - a 0 (Suc 0) * a (Suc 0) 0"
  by (simp add: minor_def skip_def)

lemma less_2_cases: "i < Suc (Suc 0) \<Longrightarrow> i = 0 \<or> i = Suc 0"
  by auto

lemma less_3_cases: "i < Suc (Suc (Suc 0)) \<Longrightarrow> i = 0 \<or> i = Suc 0 \<or> i = Suc (Suc 0)"
  by auto

lemma cofactor_2:
  "cofactor (Suc (Suc 0)) a 0 0 = a (Suc 0) (Suc 0)"
  "cofactor (Suc (Suc 0)) a 0 (Suc 0) = - a (Suc 0) 0"
  "cofactor (Suc (Suc 0)) a (Suc 0) 0 = - a 0 (Suc 0)"
  "cofactor (Suc (Suc 0)) a (Suc 0) (Suc 0) = a 0 0"
  by (simp_all add: cofactor_def minor_def skip_def)

lemma linalg_inv_2x2:
  assumes "dim0 A = 2" and inv: "linalg_inv A = Inr P" and "i < 2" "k < 2"
  shows "(\<Sum>j<2. elem A i j * elem P j k) = (if i = k then 1 else 0)"
proof -
  have d: "det 2 (elem A) \<noteq> 0"
    and P: "elem P = (\<lambda>i j. cofactor 2 (elem A) j i / det 2 (elem A))"
    using linalg_inv_Inr [OF inv] assms(1) by simp_all
  define D where "D = det 2 (elem A)"
  have D: "D \<noteq> 0" using d by (simp add: D_def)
  have s: "(\<Sum>j<2. elem A i j * elem P j k)
            = (\<Sum>j<2. elem A i j * cofactor 2 (elem A) k j) / D"
    by (simp add: P D_def sum_divide_distrib)
  have "(\<Sum>j<2. elem A i j * cofactor 2 (elem A) k j) = (if i = k then D else 0)"
    using less_2_cases [of i] less_2_cases [of k] assms(3,4)
    unfolding D_def numeral_2_eq_2
    by (auto simp: cofactor_def minor_def skip_def algebra_simps)
  then show ?thesis
    using D by (simp add: s)
qed

lemma det_3:
  "det (Suc (Suc (Suc 0))) a =
     a 0 0 * (a (Suc 0) (Suc 0) * a (Suc (Suc 0)) (Suc (Suc 0))
              - a (Suc 0) (Suc (Suc 0)) * a (Suc (Suc 0)) (Suc 0))
     - a 0 (Suc 0) * (a (Suc 0) 0 * a (Suc (Suc 0)) (Suc (Suc 0))
              - a (Suc 0) (Suc (Suc 0)) * a (Suc (Suc 0)) 0)
     + a 0 (Suc (Suc 0)) * (a (Suc 0) 0 * a (Suc (Suc 0)) (Suc 0)
              - a (Suc 0) (Suc 0) * a (Suc (Suc 0)) 0)"
  by (simp add: minor_def skip_def algebra_simps)

lemma linalg_inv_3x3:
  assumes "dim0 A = 3" and inv: "linalg_inv A = Inr P" and "i < 3" "k < 3"
  shows "(\<Sum>j<3. elem A i j * elem P j k) = (if i = k then 1 else 0)"
proof -
  have d: "det 3 (elem A) \<noteq> 0"
    and P: "elem P = (\<lambda>i j. cofactor 3 (elem A) j i / det 3 (elem A))"
    using linalg_inv_Inr [OF inv] assms(1) by simp_all
  define D where "D = det 3 (elem A)"
  have D: "D \<noteq> 0" using d by (simp add: D_def)
  have s: "(\<Sum>j<3. elem A i j * elem P j k)
            = (\<Sum>j<3. elem A i j * cofactor 3 (elem A) k j) / D"
    by (simp add: P D_def sum_divide_distrib)
  have "(\<Sum>j<3. elem A i j * cofactor 3 (elem A) k j) = (if i = k then D else 0)"
    using less_3_cases [of i] less_3_cases [of k] assms(3,4)
    unfolding D_def numeral_3_eq_3
    by (auto simp: cofactor_def det_2 det_3 minor_def skip_def algebra_simps)
  then show ?thesis
    using D by (simp add: s)
qed

text \<open>The unfolding rules that evaluate the tensor operations on a concrete input.\<close>

lemmas tensor_eval =
  tensor_def tensor_t_def linalg_inv_def logdet_def cofactor_def minor_def skip_def
  einsum_i_ij_j_def einsum_i_ij_jE_def einsum_Ei_ij_jE_def bcast_def vat_def mat_def
  eval_nat_numeral

section \<open>Properties of \<open>log_pdf\<close> and \<open>pdf\<close>\<close>

lemma length_M_value: "length (M_value alpha n) = length alpha"
  by (subst M_value_entrywise) simp

text \<open>Whatever \<open>log_pdf\<close> returns has one entry per row of \<open>y\<close>.\<close>

lemma log_pdf_length:
  assumes "log_pdf mu covariance y = Inr lpdf"
  shows "length lpdf = dim0 y"
  using assms
  by (auto simp: log_pdf_def Let_def einsum_i_ij_jE_def einsum_Ei_ij_jE_def tensor_t_def
        bcast_same length_M_value split: sum.splits)


text \<open>A covariance that is not square stops the inversion with the shape error.\<close>

lemma log_pdf_not_square:
  assumes "dim0 covariance \<noteq> dim1 covariance"
  shows "log_pdf mu covariance y = Inl DimensionMismatchError"
  using assms by (simp add: linalg_inv_def log_pdf_def)

text \<open>
  With an invertible square covariance, sizes of which each pair agrees or has a 1 raise
  nothing: \<open>einsum\<close> broadcasts them.
\<close>

lemma log_pdf_broadcast_succeeds:
  assumes "dim0 covariance = n" "dim1 covariance = n" "det n (elem covariance) \<noteq> 0"
      and "length mu = n \<or> length mu = 1 \<or> n = 1"
      and "dim1 y = n \<or> dim1 y = 1 \<or> n = 1"
  shows "\<exists>lpdf. log_pdf mu covariance y = Inr lpdf"
  using assms(4,5)
  by (auto simp: log_pdf_def linalg_inv_invertible [OF assms(1-3)] einsum_i_ij_j_def
        einsum_i_ij_jE_def einsum_Ei_ij_jE_def bcast_def tensor_t_def Let_def split: sum.splits)



section \<open>The value of \<open>ln(2 pi)\<close> to four decimals\<close>

text \<open>
  Bounds on \<open>pi\<close> from the sign of the cosine near \<open>pi/2\<close>, and on the exponential, both
  from the Maclaurin polynomials of degree 11 with their remainders.
\<close>

lemma cos_poly_bound:
  fixes x :: real
  shows "\<bar>cos x - (\<Sum>m<n. cos_coeff m * x ^ m)\<bar> \<le> \<bar>x\<bar> ^ n / fact n"
proof -
  obtain t where
    c: "cos x = (\<Sum>m<n. cos_coeff m * x ^ m) + (cos (t + 1/2 * real n * pi) / fact n) * x ^ n"
    using Maclaurin_cos_expansion [of x n] by blast
  have "\<bar>cos x - (\<Sum>m<n. cos_coeff m * x ^ m)\<bar>
          = \<bar>cos (t + 1/2 * real n * pi)\<bar> * (\<bar>x\<bar> ^ n / fact n)"
    by (simp add: c abs_mult power_abs)
  also have "\<dots> \<le> 1 * (\<bar>x\<bar> ^ n / fact n)"
    by (rule mult_right_mono) simp_all
  finally show ?thesis by simp
qed

lemma cos_poly_12:
  fixes x :: real
  shows "(\<Sum>m<12. cos_coeff m * x ^ m)
         = 1 - x^2 / 2 + x^4 / 24 - x^6 / 720 + x^8 / 40320 - x^10 / 3628800"
  by (simp add: lessThan_nat_numeral cos_coeff_def fact_numeral)

lemma exp_poly_12:
  fixes x :: real
  shows "(\<Sum>m<12. x ^ m / fact m)
         = 1 + x + x^2 / 2 + x^3 / 6 + x^4 / 24 + x^5 / 120 + x^6 / 720 + x^7 / 5040
           + x^8 / 40320 + x^9 / 362880 + x^10 / 3628800 + x^11 / 39916800"
  by (simp add: lessThan_nat_numeral fact_numeral)

lemma fact_12: "fact 12 = (479001600 :: real)"
  by (simp add: fact_numeral)

lemma pi_gt_31415: "3.1415 < pi"
proof -
  define a :: real where "a = 6283 / 4000"
  define S where "S = 1 - a^2 / 2 + a^4 / 24 - a^6 / 720 + a^8 / 40320 - a^10 / 3628800"
  define E where "E = a ^ 12 / 479001600"
  have "0 < S - E"
    by (simp add: S_def E_def a_def power_divide)
  moreover have "\<bar>cos a - S\<bar> \<le> E"
    using cos_poly_bound [of a 12] by (simp add: cos_poly_12 fact_12 S_def E_def a_def)
  ultimately have pos: "0 < cos a"
    by linarith
  have "a < pi / 2"
  proof (rule ccontr)
    assume "\<not> a < pi / 2"
    then have "pi / 2 \<le> a" by simp
    moreover have "a \<le> pi" using pi_ge_two by (simp add: a_def)
    ultimately have "cos a \<le> cos (pi / 2)"
      by (intro cos_monotone_0_pi_le) simp_all
    with pos show False by simp
  qed
  then show ?thesis by (simp add: a_def)
qed

lemma pi_lt_31418: "pi < 3.1418"
proof -
  define b :: real where "b = 15709 / 10000"
  define S where "S = 1 - b^2 / 2 + b^4 / 24 - b^6 / 720 + b^8 / 40320 - b^10 / 3628800"
  define E where "E = b ^ 12 / 479001600"
  have "S + E < 0"
    by (simp add: S_def E_def b_def power_divide)
  moreover have "\<bar>cos b - S\<bar> \<le> E"
    using cos_poly_bound [of b 12] by (simp add: cos_poly_12 fact_12 S_def E_def b_def)
  ultimately have neg: "cos b < 0"
    by linarith
  have "pi / 2 < b"
  proof (rule ccontr)
    assume "\<not> pi / 2 < b"
    then have "b \<le> pi / 2" by simp
    moreover have "- (pi / 2) \<le> b"
    proof -
      have "(0::real) \<le> b" by (simp add: b_def)
      with pi_ge_zero show ?thesis by linarith
    qed
    ultimately have "0 \<le> cos b" by (rule cos_ge_zero [rotated])
    with neg show False by simp
  qed
  then show ?thesis by (simp add: b_def)
qed

lemma exp_upper:
  "exp (9189 / 5000 :: real) < 6.283"
proof -
  define x :: real where "x = 9189 / 5000"
  obtain t where t: "\<bar>t\<bar> \<le> \<bar>x\<bar>"
    and e: "exp x = (\<Sum>m<12. x ^ m / fact m) + (exp t / fact 12) * x ^ 12"
    using Maclaurin_exp_le [of x 12] by blast
  have "t \<le> x" using t by (simp add: x_def)
  then have "exp t \<le> exp x" by simp
  then have "(exp t / fact 12) * x ^ 12 \<le> (exp x / fact 12) * x ^ 12"
    by (intro mult_right_mono divide_right_mono) (simp_all add: x_def)
  with e have "exp x * (1 - x ^ 12 / 479001600) \<le> (\<Sum>m<12. x ^ m / fact m)"
    by (simp add: fact_12 algebra_simps)
  moreover have "(\<Sum>m<12. x ^ m / fact m) < 6.283 * (1 - x ^ 12 / 479001600)"
    unfolding exp_poly_12 by (simp add: x_def power_divide)
  moreover have "0 < 1 - x ^ 12 / 479001600"
    by (simp add: x_def power_divide)
  ultimately have "exp x * (1 - x ^ 12 / 479001600) < 6.283 * (1 - x ^ 12 / 479001600)"
    and "0 < 1 - x ^ 12 / 479001600"
    by linarith+
  then have "exp x < 6.283"
    by (simp only: mult_less_cancel_right_pos)
  then show ?thesis by (simp add: x_def)
qed

lemma exp_lower:
  "6.2836 < exp (919 / 500 :: real)"
proof -
  define x :: real where "x = 919 / 500"
  obtain t where e: "exp x = (\<Sum>m<12. x ^ m / fact m) + (exp t / fact 12) * x ^ 12"
    using Maclaurin_exp_le [of x 12] by blast
  have "0 \<le> (exp t / fact 12) * x ^ 12"
    by (simp add: x_def)
  with e have "(\<Sum>m<12. x ^ m / fact m) \<le> exp x" by simp
  moreover have "6.2836 < (\<Sum>m<12. x ^ m / fact m)"
    unfolding exp_poly_12 by (simp add: x_def power_divide)
  ultimately have "6.2836 < exp x" by simp
  then show ?thesis by (simp add: x_def)
qed

lemma ln_two_pi_bounds: "1.8378 < ln (2 * pi) \<and> ln (2 * pi) < 1.838"
proof -
  have "exp (9189 / 5000 :: real) < 2 * pi"
    using exp_upper pi_gt_31415 by simp
  then have "exp (9189 / 5000 :: real) < exp (ln (2 * pi))" by simp
  then have l: "9189 / 5000 < ln (2 * pi)" by (simp only: exp_less_cancel_iff)
  have "2 * pi < exp (919 / 500 :: real)"
    using exp_lower pi_lt_31418 by simp
  then have "exp (ln (2 * pi)) < exp (919 / 500 :: real)" by simp
  then have u: "ln (2 * pi) < 919 / 500" by (simp only: exp_less_cancel_iff)
  from l u show ?thesis by simp
qed

text \<open>
  C4. For \<open>mu = [0, 0]\<close>, the 2 x 2 identity as covariance and \<open>y = [[1, 0]]\<close>, \<open>log_pdf\<close>
  returns the one-entry vector with the value \<open>ln(1 / (2 pi))\<close>, which is \<open>-1.8379\<close>
  to within \<open>0.0001\<close>.
\<close>

theorem log_pdf_isotropic_2d:
  "log_pdf [0, 0] (tensor [[1, 0], [0, 1]]) (tensor [[1, 0]]) = Inr [ln (1 / (2 * pi))]
   \<and> \<bar>ln (1 / (2 * pi)) - (- 1.8379)\<bar> < 0.0001"
proof
  show "log_pdf [0, 0] (tensor [[1, 0], [0, 1]]) (tensor [[1, 0]]) = Inr [ln (1 / (2 * pi))]"
    by (simp add: log_pdf_def M_value_def tensor_eval ln_div)
  have neg: "ln (1 / (2 * pi)) = - ln (2 * pi)"
    by (simp add: ln_div)
  have "9189 / 5000 < ln (2 * pi)" and "ln (2 * pi) < 919 / 500"
    using ln_two_pi_bounds by simp_all
  then have "\<bar>- ln (2 * pi) + 18379 / 10000\<bar> < 1 / 10000"
    by linarith
  then show "\<bar>ln (1 / (2 * pi)) - (- 1.8379)\<bar> < 0.0001"
    unfolding neg by simp
qed

text \<open>
  C5. Where \<open>log_pdf\<close> returns \<open>lpdf\<close>, \<open>pdf\<close> returns the exponential of every entry of
  \<open>lpdf\<close>; and \<open>pdf\<close> raises an error exactly when \<open>log_pdf\<close> raises it.
\<close>

theorem pdf_exp_log_pdf:
  "(log_pdf mu covariance y = Inr lpdf \<longrightarrow> pdf mu covariance y = Inr (map exp lpdf))
   \<and> (log_pdf mu covariance y = Inl e \<longleftrightarrow> pdf mu covariance y = Inl e)"
  by (simp add: pdf_def split: sum.splits)

theorem pdf_exp_log_pdf_witness:
  "pdf [0, 0] (tensor [[1, 0], [0, 1]]) (tensor [[0, 1]]) = Inr [1 / (2 * pi)]
   \<and> pdf [0, 0] (tensor [[1, 0], [1, 0]]) (tensor [[0, 1]]) = Inl SingularMatrixError"
proof -
  have ok: "log_pdf [0, 0] (tensor [[1, 0], [0, 1]]) (tensor [[0, 1]]) = Inr [- ln (2 * pi)]"
    by (simp add: log_pdf_def M_value_def tensor_eval)
  have bad: "log_pdf [0, 0] (tensor [[1, 0], [1, 0]]) (tensor [[0, 1]])
             = Inl SingularMatrixError"
    by (simp add: log_pdf_def tensor_eval)
  show ?thesis
    using pdf_exp_log_pdf [of "[0, 0]" "tensor [[1, 0], [0, 1]]" "tensor [[0, 1]]"
        "[- ln (2 * pi)]"]
      pdf_exp_log_pdf [of "[0, 0]" "tensor [[1, 0], [1, 0]]" "tensor [[0, 1]]" _
        SingularMatrixError]
      ok bad
    by (simp add: exp_minus inverse_eq_divide)
qed



text \<open>
  C7. The claim: whenever the length of \<open>mu\<close> or the number of columns of \<open>y\<close> differs
  from the covariance dimension \<open>n\<close>, \<open>log_pdf\<close> fails with a dimension-mismatch error.
  It fails on the code where a size is 1. The source checks no shape itself; the only
  check is the one \<open>einsum\<close> makes, and \<open>einsum\<close> broadcasts a size of 1. With \<open>mu\<close> of
  length 1 and a 2 x 2 covariance, \<open>log_pdf\<close> returns a value.
\<close>

theorem log_pdf_broadcasts_mu:
  "log_pdf [0] (tensor [[1, 0], [0, 1]]) (tensor [[1, 0]]) = Inr [- (1 / 2) * ln (2 * pi)]"
  by (simp add: log_pdf_def M_value_def tensor_eval)

text \<open>
  C7, as amended. For an invertible \<open>n x n\<close> covariance with \<open>n\<close> other than 1,
  \<open>log_pdf\<close> fails with the dimension-mismatch error whenever the length of \<open>mu\<close> is
  neither \<open>n\<close> nor 1, or the number of columns of \<open>y\<close> is neither \<open>n\<close> nor 1.
\<close>

theorem log_pdf_dimension_mismatch:
  assumes cov: "dim0 covariance = n" "dim1 covariance = n" "det n (elem covariance) \<noteq> 0"
      and n: "n \<noteq> 1"
      and bad: "(length mu \<noteq> n \<and> length mu \<noteq> 1) \<or> (dim1 y \<noteq> n \<and> dim1 y \<noteq> 1)"
  shows "log_pdf mu covariance y = Inl DimensionMismatchError"
proof -
  define precision :: tensor2 where
    "precision = \<lparr>dim0 = n, dim1 = n,
        elem = (\<lambda>i j. cofactor n (elem covariance) j i / det n (elem covariance))\<rparr>"
  have inv: "linalg_inv covariance = Inr precision"
    unfolding precision_def by (rule linalg_inv_invertible [OF cov])
  have P: "dim0 precision = n" "dim1 precision = n"
    by (simp_all add: precision_def)
  from bad show ?thesis
  proof
    assume "length mu \<noteq> n \<and> length mu \<noteq> 1"
    then have "einsum_i_ij_j mu precision mu = Inl DimensionMismatchError"
      using n P by (simp add: einsum_i_ij_j_mismatch)
    then show ?thesis
      by (simp add: log_pdf_def inv)
  next
    assume "dim1 y \<noteq> n \<and> dim1 y \<noteq> 1"
    then have q2: "einsum_i_ij_jE mu precision (tensor_t y) = Inl DimensionMismatchError"
      using n P by (simp add: einsum_i_ij_jE_mismatch tensor_t_def)
    show ?thesis
    proof (cases "einsum_i_ij_j mu precision mu")
      case (Inl e)
      then show ?thesis
        using einsum_i_ij_j_Inl [OF Inl] by (simp add: log_pdf_def inv)
    next
      case (Inr q1)
      then show ?thesis
        by (simp add: log_pdf_def inv q2)
    qed
  qed
qed

theorem log_pdf_dimension_mismatch_witness:
  "log_pdf [1, 2, 3] (tensor [[1, 0, 0], [0, 1, 0], [0, 0, 1]])
     (tensor [[1, 0], [0, 1], [1, 0], [0, 1]]) = Inl DimensionMismatchError"
  using log_pdf_dimension_mismatch [of "tensor [[1, 0, 0], [0, 1, 0], [0, 0, 1]]" 3
      "[1, 2, 3]" "tensor [[1, 0], [0, 1], [1, 0], [0, 1]]"]
  by (simp add: tensor_def minor_def skip_def eval_nat_numeral)



end
